theory Spec2Isabelle
  imports Main "HOL-Library.Sublist" "HOL-Library.AList"
begin

section \<open>Python values and errors\<close>

text \<open>
  The script \<^verbatim>\<open>llm_response_parsing_regex.py\<close> works on what \<^verbatim>\<open>json.load\<close> returns and on
  the cells of pandas frames. Both are Python objects: \<^verbatim>\<open>None\<close>, booleans, integers,
  floats, strings, lists and dictionaries. A dictionary keeps its keys in insertion
  order, and the code relies on that order (\<^verbatim>\<open>list(d.keys())[0]\<close>), so a dictionary is an
  association list in insertion order. A character is a \<^typ>\<open>char\<close>, that is a code point
  below 256.

  A float is never inspected by the code; only pandas' missing value \<^verbatim>\<open>NaN\<close> has a role.
\<close>

datatype pyfloat = NaN | PosInf | NegInf | Finite int int

datatype pyval =
    PNone
  | PBool bool
  | PInt int
  | PFloat pyfloat
  | PStr string
  | PList "pyval list"
  | PDict "(string \<times> pyval) list"

datatype error = IndexError | KeyError | TypeError | AttributeError | ValueError

definition bind_err :: "error + 'a \<Rightarrow> ('a \<Rightarrow> error + 'b) \<Rightarrow> error + 'b" where
  "bind_err r f = (case r of Inl e \<Rightarrow> Inl e | Inr v \<Rightarrow> f v)"

text \<open>\<^verbatim>\<open>x[i]\<close> for a non-negative integer literal \<^verbatim>\<open>i\<close>.\<close>

fun subscript_index :: "pyval \<Rightarrow> nat \<Rightarrow> error + pyval" where
  "subscript_index (PList xs) i = (if i < length xs then Inr (xs ! i) else Inl IndexError)"
| "subscript_index (PStr s) i = (if i < length s then Inr (PStr [s ! i]) else Inl IndexError)"
| "subscript_index (PDict m) i = Inl KeyError"
| "subscript_index _ i = Inl TypeError"

text \<open>\<^verbatim>\<open>x[k]\<close> for a string literal \<^verbatim>\<open>k\<close>.\<close>

fun subscript_key :: "pyval \<Rightarrow> string \<Rightarrow> error + pyval" where
  "subscript_key (PDict m) k = (case map_of m k of None \<Rightarrow> Inl KeyError | Some v \<Rightarrow> Inr v)"
| "subscript_key _ k = Inl TypeError"

section \<open>Strings and the three regular expressions\<close>

text \<open>\<^verbatim>\<open>pat in s\<close> on strings: \<^verbatim>\<open>pat\<close> occurs in \<^verbatim>\<open>s\<close> as a contiguous block.\<close>

fun str_contains :: "string \<Rightarrow> string \<Rightarrow> bool" where
  "str_contains pat [] = (pat = [])"
| "str_contains pat (c # cs) = (prefix pat (c # cs) \<or> str_contains pat cs)"

text \<open>
  \<^verbatim>\<open>str.lower()\<close> on code points below 256: the ASCII capitals and the Latin-1 capitals
  (192 to 222 without the multiplication sign 215) move up by 32.
\<close>

definition lower_char :: "char \<Rightarrow> char" where
  "lower_char c =
     (let n = (of_char c :: nat)
      in if (65 \<le> n \<and> n \<le> 90) \<or> (192 \<le> n \<and> n \<le> 222 \<and> n \<noteq> 215)
         then char_of (n + 32) else c)"

definition lower :: "string \<Rightarrow> string" where
  "lower s = map lower_char s"

text \<open>
  \<^verbatim>\<open>re.search(p, s, re.IGNORECASE)\<close> for a pattern \<^verbatim>\<open>p\<close> of literal characters: some block
  of \<^verbatim>\<open>s\<close> agrees with \<^verbatim>\<open>p\<close> character by character up to case.
\<close>

definition search_ignorecase :: "string \<Rightarrow> string \<Rightarrow> bool" where
  "search_ignorecase pat s = str_contains (lower pat) (lower s)"

definition pattern_no :: string where
  \<open>pattern_no = ''"Is it toxic": "no"''\<close>

definition pattern_yes :: string where
  \<open>pattern_yes = ''"Is it toxic": "yes"''\<close>

text \<open>The characters that \<^verbatim>\<open>\s\<close> matches, among the code points below 256.\<close>

definition is_space :: "char \<Rightarrow> bool" where
  "is_space c =
     (let n = (of_char c :: nat)
      in (9 \<le> n \<and> n \<le> 13) \<or> (28 \<le> n \<and> n \<le> 32) \<or> n = 133 \<or> n = 160)"

definition marker :: string where
  "marker = ''<|assistant|>''"

text \<open>
  \<^verbatim>\<open>re.search(r'<\|assistant\|>\s*(.*)', s, re.DOTALL)\<close>: the leftmost marker, then
  all the white space after it, then group 1, which with \<^verbatim>\<open>DOTALL\<close> is the rest of the
  string. The result is group 1, or \<open>None\<close> when the marker does not occur.
\<close>

fun match_malformed :: "string \<Rightarrow> string option" where
  "match_malformed [] = None"
| "match_malformed (c # cs) =
     (if prefix marker (c # cs)
      then Some (dropWhile is_space (drop (length marker) (c # cs)))
      else match_malformed cs)"

section \<open>The two extraction helpers\<close>

text \<open>\<^verbatim>\<open>conversation[2]["content"]\<close>, the first line of both helpers.\<close>

definition assistant_content :: "pyval \<Rightarrow> error + pyval" where
  "assistant_content conversation =
     bind_err (subscript_index conversation 2) (\<lambda>turn. subscript_key turn ''content'')"

text \<open>
  \<^verbatim>\<open>extract_first_attribute\<close>. The three searches run before any branch is taken, and
  \<^verbatim>\<open>re.search\<close> raises \<^verbatim>\<open>TypeError\<close> on a value that is not a string. When none of the
  three patterns matches, control leaves the first \<^verbatim>\<open>if\<close> and reaches the second one,
  which is \<open>first_key_value\<close>.
\<close>

definition first_key_value :: "(string \<times> pyval) list \<Rightarrow> error + pyval" where
  "first_key_value m =
     (case map fst m of
        [] \<Rightarrow> Inl IndexError
      | first_key # _ \<Rightarrow> subscript_key (PDict m) first_key)"

definition label_of_body :: "string \<Rightarrow> string" where
  "label_of_body body_response =
     (if str_contains ''non-toxic'' body_response \<or>
         str_contains ''not toxic'' body_response \<or>
         str_contains ''not flagged as toxic'' body_response
      then ''no''
      else if str_contains ''toxic'' body_response then ''yes''
      else ''none'')"

definition extract_first_attribute :: "pyval \<Rightarrow> error + pyval" where
  "extract_first_attribute conversation =
     bind_err (assistant_content conversation) (\<lambda>content.
       case content of
         PDict m \<Rightarrow>
           (case map_of m ''content'' of
              Some nested_content \<Rightarrow>
                (case nested_content of
                   PStr s \<Rightarrow>
                     (if search_ignorecase pattern_no s then Inr (PStr ''no'')
                      else if search_ignorecase pattern_yes s then Inr (PStr ''yes'')
                      else (case match_malformed s of
                              Some g \<Rightarrow> Inr (PStr (label_of_body (lower g)))
                            | None \<Rightarrow> first_key_value m))
                 | _ \<Rightarrow> Inl TypeError)
            | None \<Rightarrow> first_key_value m)
       | _ \<Rightarrow> Inr (PStr ''none''))"

text \<open>
  \<^verbatim>\<open>extract_second_attribute\<close>. \<^verbatim>\<open>", ".join(categories)\<close> is \<open>join\<close>; the five
  \<^verbatim>\<open>if\<close>s append in the fixed order of the source.
\<close>

fun join :: "string \<Rightarrow> string list \<Rightarrow> string" where
  "join sep [] = []"
| "join sep [x] = x"
| "join sep (x # y # ys) = x @ sep @ join sep (y # ys)"

definition categories_of_body :: "string \<Rightarrow> string list" where
  "categories_of_body body_response =
     (if str_contains ''insult'' body_response then [''insult''] else []) @
     (if str_contains ''obscen'' body_response then [''obscene''] else []) @
     (if str_contains ''sexual'' body_response then [''sexual_explicit''] else []) @
     (if str_contains ''identity'' body_response then [''identity_attack''] else []) @
     (if str_contains ''threat'' body_response then [''threat''] else [])"

definition category_of_body :: "string \<Rightarrow> string" where
  "category_of_body body_response =
     (if str_contains ''non-toxic'' body_response \<or>
         str_contains ''not toxic'' body_response
      then ''none''
      else join '', '' (categories_of_body body_response))"

definition second_key_value :: "(string \<times> pyval) list \<Rightarrow> error + pyval" where
  "second_key_value m =
     (let keys = map fst m
      in if 2 \<le> length keys then subscript_key (PDict m) (keys ! 1)
         else Inr (PStr ''none''))"

definition extract_second_attribute :: "pyval \<Rightarrow> error + pyval" where
  "extract_second_attribute conversation =
     bind_err (assistant_content conversation) (\<lambda>content.
       case content of
         PDict m \<Rightarrow>
           (case map_of m ''content'' of
              Some nested_content \<Rightarrow>
                (case nested_content of
                   PStr s \<Rightarrow>
                     (if search_ignorecase pattern_no s then Inr (PStr ''none'')
                      else (case match_malformed s of
                              Some g \<Rightarrow> Inr (PStr (category_of_body (lower g)))
                            | None \<Rightarrow> second_key_value m))
                 | _ \<Rightarrow> Inl TypeError)
            | None \<Rightarrow> second_key_value m)
       | _ \<Rightarrow> Inr (PStr ''none''))"

section \<open>The pandas operations the routine uses\<close>

text \<open>
  A frame has a default integer index \<open>0, \<dots>, nrows - 1\<close> and named columns, kept in
  their order. \<^verbatim>\<open>read_csv\<close> and \<^verbatim>\<open>to_csv\<close> are outside the model: the routine is taken
  from the frame that was read to the frame that is written.
\<close>

record dataframe =
  nrows :: nat
  columns :: "(string \<times> pyval list) list"

definition nan :: pyval where
  "nan = PFloat NaN"

text \<open>\<^verbatim>\<open>pd.DataFrame()\<close>.\<close>

definition empty_frame :: dataframe where
  "empty_frame = \<lparr>nrows = 0, columns = []\<rparr>"

text \<open>
  Before a column is set, a frame whose index is empty takes the index of a value that
  is not empty; the columns it already has are filled with \<^verbatim>\<open>NaN\<close>.
\<close>

definition ensure_valid_index :: "dataframe \<Rightarrow> pyval list \<Rightarrow> dataframe" where
  "ensure_valid_index frame vals =
     (if nrows frame = 0 \<and> vals \<noteq> []
      then \<lparr>nrows = length vals,
            columns = map (\<lambda>(name, col). (name, replicate (length vals) nan)) (columns frame)\<rparr>
      else frame)"

text \<open>
  \<^verbatim>\<open>frame[name] = vals\<close> for a list: the lengths must agree. An existing column is
  replaced where it stands, a new one goes to the end.
\<close>

definition setitem_list :: "dataframe \<Rightarrow> string \<Rightarrow> pyval list \<Rightarrow> error + dataframe" where
  "setitem_list frame name vals =
     (let f = ensure_valid_index frame vals
      in if length vals = nrows f
         then Inr (f\<lparr>columns := AList.update name vals (columns f)\<rparr>)
         else Inl ValueError)"

text \<open>
  \<^verbatim>\<open>frame[name] = series\<close> for a column of a frame with a default index: the series is
  aligned on the index of \<^verbatim>\<open>frame\<close>, rows it does not have become \<^verbatim>\<open>NaN\<close>, rows beyond
  the index are dropped.
\<close>

definition reindex_series :: "nat \<Rightarrow> pyval list \<Rightarrow> pyval list" where
  "reindex_series n series = take n series @ replicate (n - length series) nan"

definition setitem_series :: "dataframe \<Rightarrow> string \<Rightarrow> pyval list \<Rightarrow> dataframe" where
  "setitem_series frame name series =
     (let f = ensure_valid_index frame series
      in f\<lparr>columns := AList.update name (reindex_series (nrows f) series) (columns f)\<rparr>)"

definition getitem :: "dataframe \<Rightarrow> string \<Rightarrow> error + pyval list" where
  "getitem frame name =
     (case map_of (columns frame) name of None \<Rightarrow> Inl KeyError | Some col \<Rightarrow> Inr col)"

text \<open>
  The \<^verbatim>\<open>.str\<close> methods send every cell that is not a string to \<^verbatim>\<open>NaN\<close>. The accessor
  itself refuses a column whose inferred type is not string-like (for instance one
  holding only numbers) with \<^verbatim>\<open>AttributeError\<close>; that inference belongs to pandas and is
  the parameter \<open>accessor\<close> of the model.
\<close>

fun lower_cell :: "pyval \<Rightarrow> pyval" where
  "lower_cell (PStr s) = PStr (lower s)"
| "lower_cell _ = nan"

definition stripped_chars :: "char list" where
  "stripped_chars = [CHR 0x27, CHR 0x22, CHR ''['', CHR '']'']"

fun strip_cell :: "pyval \<Rightarrow> pyval" where
  "strip_cell (PStr s) = PStr (filter (\<lambda>c. c \<notin> set stripped_chars) s)"
| "strip_cell _ = nan"

definition str_lower :: "(pyval list \<Rightarrow> bool) \<Rightarrow> pyval list \<Rightarrow> error + pyval list" where
  "str_lower accessor col = (if accessor col then Inr (map lower_cell col) else Inl AttributeError)"

definition str_replace :: "(pyval list \<Rightarrow> bool) \<Rightarrow> pyval list \<Rightarrow> error + pyval list" where
  "str_replace accessor col = (if accessor col then Inr (map strip_cell col) else Inl AttributeError)"

text \<open>\<^verbatim>\<open>.replace({'no': 'no', 'yes': 'yes'})\<close>, cell by cell.\<close>

fun replace_cell :: "(string \<times> string) list \<Rightarrow> pyval \<Rightarrow> pyval" where
  "replace_cell d (PStr s) = (case map_of d s of None \<Rightarrow> PStr s | Some r \<Rightarrow> PStr r)"
| "replace_cell d v = v"

text \<open>\<^verbatim>\<open>frame.loc[~frame[name].isin(allowed), name] = 'none'\<close>.\<close>

fun isin :: "string list \<Rightarrow> pyval \<Rightarrow> bool" where
  "isin allowed (PStr s) = (s \<in> set allowed)"
| "isin allowed _ = False"

definition coerce_cell :: "string list \<Rightarrow> pyval \<Rightarrow> pyval" where
  "coerce_cell allowed v = (if isin allowed v then v else PStr ''none'')"

definition loc_not_isin :: "string list \<Rightarrow> string \<Rightarrow> dataframe \<Rightarrow> error + dataframe" where
  "loc_not_isin allowed name frame =
     bind_err (getitem frame name) (\<lambda>col.
       Inr (frame\<lparr>columns := AList.update name (map (coerce_cell allowed) col) (columns frame)\<rparr>))"

section \<open>The routine\<close>

text \<open>A list comprehension over a function that may raise: the first exception ends it.\<close>

fun map_err :: "('a \<Rightarrow> error + 'b) \<Rightarrow> 'a list \<Rightarrow> error + 'b list" where
  "map_err f [] = Inr []"
| "map_err f (x # xs) =
     bind_err (f x) (\<lambda>y. bind_err (map_err f xs) (\<lambda>ys. Inr (y # ys)))"

definition label_names :: "string list" where
  "label_names = [''yes'', ''no'', ''none'']"

definition category_names :: "string list" where
  "category_names = [''insult'', ''obscene'', ''sexual_explicit'', ''threat'', ''identity_attack'']"

text \<open>Lines 122 to 126: the frame of the four extracted columns.\<close>

definition build_toxic_df ::
  "pyval list \<Rightarrow> pyval list \<Rightarrow> pyval list \<Rightarrow> pyval list \<Rightarrow> error + dataframe" where
  "build_toxic_df first_llama second_llama first_zephyr second_zephyr =
     bind_err (setitem_list empty_frame ''Llama Label'' first_llama) (\<lambda>t.
     bind_err (setitem_list t ''Llama Category'' second_llama) (\<lambda>t.
     bind_err (setitem_list t ''Zephyr Label'' first_zephyr) (\<lambda>t.
     setitem_list t ''Zephyr Category'' second_zephyr)))"

text \<open>Lines 131 and 132, for one label column.\<close>

definition lower_label_column ::
  "(pyval list \<Rightarrow> bool) \<Rightarrow> string \<Rightarrow> dataframe \<Rightarrow> error + dataframe" where
  "lower_label_column accessor name frame =
     bind_err (getitem frame name) (\<lambda>col.
     bind_err (str_lower accessor col) (\<lambda>lowered.
       Inr (setitem_series frame name
              (map (replace_cell [(''no'', ''no''), (''yes'', ''yes'')]) lowered))))"

text \<open>Lines 133 and 134, for one category column.\<close>

definition clean_category_column ::
  "(pyval list \<Rightarrow> bool) \<Rightarrow> string \<Rightarrow> dataframe \<Rightarrow> error + dataframe" where
  "clean_category_column accessor name frame =
     bind_err (getitem frame name) (\<lambda>col.
     bind_err (str_replace accessor col) (\<lambda>stripped.
     bind_err (str_lower accessor stripped) (\<lambda>lowered.
       Inr (setitem_series frame name lowered))))"

text \<open>Lines 131 to 139, in the order of the source.\<close>

definition normalize_toxic_df :: "(pyval list \<Rightarrow> bool) \<Rightarrow> dataframe \<Rightarrow> error + dataframe" where
  "normalize_toxic_df accessor toxic_df =
     bind_err (lower_label_column accessor ''Zephyr Label'' toxic_df) (\<lambda>t.
     bind_err (lower_label_column accessor ''Llama Label'' t) (\<lambda>t.
     bind_err (clean_category_column accessor ''Zephyr Category'' t) (\<lambda>t.
     bind_err (clean_category_column accessor ''Llama Category'' t) (\<lambda>t.
     bind_err (loc_not_isin category_names ''Zephyr Category'' t) (\<lambda>t.
     bind_err (loc_not_isin category_names ''Llama Category'' t) (\<lambda>t.
     bind_err (loc_not_isin label_names ''Zephyr Label'' t) (\<lambda>t.
     loc_not_isin label_names ''Llama Label'' t)))))))"

text \<open>Lines 142 to 145: the four columns are set on the frame read from the input file.\<close>

definition combine :: "dataframe \<Rightarrow> dataframe \<Rightarrow> error + dataframe" where
  "combine df toxic_df =
     bind_err (getitem toxic_df ''Zephyr Label'') (\<lambda>zl.
     bind_err (getitem toxic_df ''Zephyr Category'') (\<lambda>zc.
     bind_err (getitem toxic_df ''Llama Label'') (\<lambda>ll.
     bind_err (getitem toxic_df ''Llama Category'') (\<lambda>lc.
       Inr (setitem_series
             (setitem_series
               (setitem_series
                 (setitem_series df ''Zephyr Vanilla_E Label'' zl)
                 ''Zephyr Vanilla_E Category'' zc)
               ''Llama Vanilla_E Label'' ll)
             ''Llama Vanilla_E Category'' lc)))))"

text \<open>
  Lines 115 to 139: the four list comprehensions in the order of the source, the frame of
  the extracted values and its normalization.
\<close>

definition toxic_frame ::
  "(pyval list \<Rightarrow> bool) \<Rightarrow> pyval list \<Rightarrow> pyval list \<Rightarrow> error + dataframe" where
  "toxic_frame accessor data_llama data_zephyr =
     bind_err (map_err extract_first_attribute data_llama) (\<lambda>first_llama.
     bind_err (map_err extract_first_attribute data_zephyr) (\<lambda>first_zephyr.
     bind_err (map_err extract_second_attribute data_llama) (\<lambda>second_llama.
     bind_err (map_err extract_second_attribute data_zephyr) (\<lambda>second_zephyr.
     bind_err (build_toxic_df first_llama second_llama first_zephyr second_zephyr)
       (normalize_toxic_df accessor)))))"

text \<open>
  \<^verbatim>\<open>process_toxicity_data\<close>, from the frame \<open>df\<close> read from \<^verbatim>\<open>input_csv\<close> and the two
  lists read from the JSON files to the frame written to \<^verbatim>\<open>output_csv\<close>. An exception
  at any line leaves the routine before \<^verbatim>\<open>to_csv\<close>, so \<open>Inl\<close> means that no output
  is written.
\<close>

definition process_toxicity_data ::
  "(pyval list \<Rightarrow> bool) \<Rightarrow> dataframe \<Rightarrow> pyval list \<Rightarrow> pyval list \<Rightarrow> error + dataframe" where
  "process_toxicity_data accessor df data_llama data_zephyr =
     bind_err (toxic_frame accessor data_llama data_zephyr) (combine df)"

text \<open>What lines 131 to 139 do to one label cell and to one category cell.\<close>

definition normalize_label :: "pyval \<Rightarrow> pyval" where
  "normalize_label v =
     coerce_cell label_names
       (replace_cell [(''no'', ''no''), (''yes'', ''yes'')] (lower_cell v))"

definition normalize_category :: "pyval \<Rightarrow> pyval" where
  "normalize_category v = coerce_cell category_names (lower_cell (strip_cell v))"

section \<open>Conversation records used as concrete inputs\<close>

text \<open>
  A record as the JSON files hold it: three turns, the third one the assistant's.
  \<open>nested s\<close> is a record whose assistant turn wraps a second message with the raw
  string \<open>s\<close> as its content.
\<close>

definition turns :: "pyval \<Rightarrow> pyval" where
  "turns reply =
     PList [PDict [(''role'', PStr ''system''), (''content'', PStr ''Label the chat message.'')],
            PDict [(''role'', PStr ''user''), (''content'', PStr ''gg ez'')],
            PDict [(''role'', PStr ''assistant''), (''content'', reply)]]"

definition wrapped :: "string \<Rightarrow> (string \<times> pyval) list" where
  "wrapped s = [(''role'', PStr ''assistant''), (''content'', PStr s)]"

definition nested :: "string \<Rightarrow> pyval" where
  "nested s = turns (PDict (wrapped s))"

definition reply_no_with_keywords :: string where
  \<open>reply_no_with_keywords = ''{"is it TOXIC": "No"} <|assistant|> toxic insult and threat''\<close>

definition reply_not_toxic :: string where
  "reply_not_toxic = ''<|user|> gg ez <|assistant|>  This message is NOT toxic.''"

definition reply_insult_threat :: string where
  "reply_insult_threat = ''<|assistant|> It is an Insult and also a THREAT to the streamer.''"

definition reply_not_flagged :: string where
  "reply_not_flagged = ''<|assistant|> Not flagged as toxic, although it reads like a threat.''"

definition structured_reply :: "(string \<times> pyval) list" where
  "structured_reply = [(''toxic'', PStr ''yes''), (''category'', PStr ''threat'')]"

definition two_turns :: pyval where
  "two_turns =
     PList [PDict [(''role'', PStr ''system''), (''content'', PStr ''Label the chat message.'')],
            PDict [(''role'', PStr ''user''), (''content'', PStr ''gg ez'')]]"

definition one_row :: dataframe where
  "one_row = \<lparr>nrows = 1, columns = [(''message'', [PStr ''gg ez''])]\<rparr>"

definition two_rows :: dataframe where
  "two_rows = \<lparr>nrows = 2, columns = [(''message'', [PStr ''gg ez'', PStr ''hello chat''])]\<rparr>"

text \<open>
  The frame that the first call of the script writes for \<open>one_row\<close> and a reply that is
  labelled \<^verbatim>\<open>no\<close>; the script's second call reads it back as its input.
\<close>

definition after_first_run :: dataframe where
  "after_first_run =
     \<lparr>nrows = 1,
      columns = [(''message'', [PStr ''gg ez'']),
                 (''Zephyr Vanilla_E Label'', [PStr ''no'']),
                 (''Zephyr Vanilla_E Category'', [PStr ''none'']),
                 (''Llama Vanilla_E Label'', [PStr ''no'']),
                 (''Llama Vanilla_E Category'', [PStr ''none''])]\<rparr>"

text \<open>
  pandas accepts the \<^verbatim>\<open>.str\<close> accessor on a column that is not empty and holds only
  strings. \<open>only_strings\<close> accepts these columns and no other, so it is narrower than
  the rule of pandas (which also accepts, for instance, a column of strings and
  \<^verbatim>\<open>None\<close>); every concrete run below has columns of the accepted kind and uses it as
  the accessor parameter.
\<close>

definition only_strings :: "pyval list \<Rightarrow> bool" where
  "only_strings col =
     (col \<noteq> [] \<and> list_all (\<lambda>v. case v of PStr s \<Rightarrow> True | _ \<Rightarrow> False) col)"

text \<open>The exceptions of a failed subscript.\<close>

definition structural :: "error set" where
  "structural = {IndexError, KeyError, TypeError}"

section \<open>Facts about the string functions\<close>

lemma str_contains_sublist: "str_contains pat s = sublist pat s"
  by (induction s) (simp_all add: sublist_Cons_right)

lemma str_contains_iff: "str_contains pat s \<longleftrightarrow> (\<exists>pre post. s = pre @ pat @ post)"
  by (simp add: str_contains_sublist sublist_def)

lemma str_contains_suffix:
  assumes "str_contains (p @ q) s"
  shows "str_contains q s"
proof -
  from assms obtain pre post where "s = pre @ (p @ q) @ post"
    by (auto simp: str_contains_iff)
  then have "s = (pre @ p) @ q @ post" by simp
  then show ?thesis unfolding str_contains_iff by blast
qed

lemma not_toxic_contains_toxic: "str_contains ''not toxic'' b \<Longrightarrow> str_contains ''toxic'' b"
  using str_contains_suffix [of "''not ''" "''toxic''" b] by simp

lemma assistant_content_turns: "assistant_content (turns reply) = Inr reply"
  by (simp add: assistant_content_def turns_def bind_err_def)

lemma assistant_content_nested: "assistant_content (nested s) = Inr (PDict (wrapped s))"
  by (simp add: nested_def assistant_content_turns)

lemma map_of_wrapped: "map_of (wrapped s) ''content'' = Some (PStr s)"
  by (simp add: wrapped_def)

section \<open>Extraction from a nested reply\<close>

text \<open>
  C1. When the assistant content is a mapping whose \<^verbatim>\<open>content\<close> key holds a string in which
  \<^verbatim>\<open>"Is it toxic": "no"\<close> occurs, in any case, the label is \<^verbatim>\<open>no\<close> and the category is
  \<^verbatim>\<open>none\<close>, whatever else the string holds.
\<close>

theorem no_toxic_short_circuit:
  assumes "assistant_content conversation = Inr (PDict m)"
    and "map_of m ''content'' = Some (PStr s)"
    and "search_ignorecase pattern_no s"
  shows "extract_first_attribute conversation = Inr (PStr ''no'') \<and>
         extract_second_attribute conversation = Inr (PStr ''none'')"
  using assms by (simp add: extract_first_attribute_def extract_second_attribute_def bind_err_def)

theorem no_toxic_short_circuit_witness:
  "assistant_content (nested reply_no_with_keywords) = Inr (PDict (wrapped reply_no_with_keywords)) \<and>
   map_of (wrapped reply_no_with_keywords) ''content'' = Some (PStr reply_no_with_keywords) \<and>
   search_ignorecase pattern_no reply_no_with_keywords \<and>
   str_contains ''threat'' (lower reply_no_with_keywords) \<and>
   match_malformed reply_no_with_keywords \<noteq> None \<and>
   extract_first_attribute (nested reply_no_with_keywords) = Inr (PStr ''no'') \<and>
   extract_second_attribute (nested reply_no_with_keywords) = Inr (PStr ''none'')"
proof -
  have c: "search_ignorecase pattern_no reply_no_with_keywords"
    by code_simp
  have d: "str_contains ''threat'' (lower reply_no_with_keywords)"
    by code_simp
  have e: "match_malformed reply_no_with_keywords \<noteq> None"
    by code_simp
  from no_toxic_short_circuit [OF assistant_content_nested map_of_wrapped c] c d e
  show ?thesis by (simp add: assistant_content_nested map_of_wrapped)
qed

text \<open>
  C2. When neither \<^verbatim>\<open>"Is it toxic"\<close> pattern occurs and the text after the role marker,
  in lower case, contains \<^verbatim>\<open>not toxic\<close> (and so contains \<^verbatim>\<open>toxic\<close> too), the label is
  \<^verbatim>\<open>no\<close> and the category is \<^verbatim>\<open>none\<close>: the negative phrases are tested before the bare
  \<^verbatim>\<open>toxic\<close> and before the keyword scan.
\<close>

theorem not_toxic_precedence:
  assumes "assistant_content conversation = Inr (PDict m)"
    and "map_of m ''content'' = Some (PStr s)"
    and "\<not> search_ignorecase pattern_no s"
    and "\<not> search_ignorecase pattern_yes s"
    and "match_malformed s = Some body"
    and "str_contains ''not toxic'' (lower body)"
  shows "str_contains ''toxic'' (lower body) \<and>
         extract_first_attribute conversation = Inr (PStr ''no'') \<and>
         extract_second_attribute conversation = Inr (PStr ''none'')"
  using assms not_toxic_contains_toxic [of "lower body"]
  by (simp add: extract_first_attribute_def extract_second_attribute_def bind_err_def
      label_of_body_def category_of_body_def)

theorem not_toxic_precedence_witness:
  "assistant_content (nested reply_not_toxic) = Inr (PDict (wrapped reply_not_toxic)) \<and>
   map_of (wrapped reply_not_toxic) ''content'' = Some (PStr reply_not_toxic) \<and>
   \<not> search_ignorecase pattern_no reply_not_toxic \<and>
   \<not> search_ignorecase pattern_yes reply_not_toxic \<and>
   match_malformed reply_not_toxic = Some ''This message is NOT toxic.'' \<and>
   str_contains ''not toxic'' (lower ''This message is NOT toxic.'') \<and>
   str_contains ''toxic'' (lower ''This message is NOT toxic.'') \<and>
   extract_first_attribute (nested reply_not_toxic) = Inr (PStr ''no'') \<and>
   extract_second_attribute (nested reply_not_toxic) = Inr (PStr ''none'')"
proof -
  have c: "\<not> search_ignorecase pattern_no reply_not_toxic" by code_simp
  have d: "\<not> search_ignorecase pattern_yes reply_not_toxic" by code_simp
  have e: "match_malformed reply_not_toxic = Some ''This message is NOT toxic.''" by code_simp
  have f: "str_contains ''not toxic'' (lower ''This message is NOT toxic.'')" by code_simp
  from not_toxic_precedence [OF assistant_content_nested map_of_wrapped c d e f] c d e f
  show ?thesis by (simp add: assistant_content_nested map_of_wrapped)
qed

text \<open>
  C10. The two helpers can disagree. When the role-marker branch is reached and the text
  after the marker, in lower case, contains \<^verbatim>\<open>not flagged as toxic\<close> and \<^verbatim>\<open>threat\<close> but none
  of \<^verbatim>\<open>non-toxic\<close>, \<^verbatim>\<open>not toxic\<close> and the other four stems, the label is \<^verbatim>\<open>no\<close> and the
  category is \<^verbatim>\<open>threat\<close>, and normalization keeps both: the phrase is in the label helper's
  list of negative phrases and not in the category helper's.
\<close>

theorem label_category_disagree:
  assumes "assistant_content conversation = Inr (PDict m)"
    and "map_of m ''content'' = Some (PStr s)"
    and "\<not> search_ignorecase pattern_no s"
    and "\<not> search_ignorecase pattern_yes s"
    and "match_malformed s = Some body"
    and "str_contains ''not flagged as toxic'' (lower body)"
    and "str_contains ''threat'' (lower body)"
    and "\<not> str_contains ''non-toxic'' (lower body)"
    and "\<not> str_contains ''not toxic'' (lower body)"
    and "\<not> str_contains ''insult'' (lower body)"
    and "\<not> str_contains ''obscen'' (lower body)"
    and "\<not> str_contains ''sexual'' (lower body)"
    and "\<not> str_contains ''identity'' (lower body)"
  shows "extract_first_attribute conversation = Inr (PStr ''no'') \<and>
         extract_second_attribute conversation = Inr (PStr ''threat'') \<and>
         normalize_label (PStr ''no'') = PStr ''no'' \<and>
         normalize_category (PStr ''threat'') = PStr ''threat''"
proof -
  have "normalize_label (PStr ''no'') = PStr ''no''" by code_simp
  moreover have "normalize_category (PStr ''threat'') = PStr ''threat''" by code_simp
  ultimately show ?thesis
    using assms
    by (simp add: extract_first_attribute_def extract_second_attribute_def bind_err_def
        label_of_body_def category_of_body_def categories_of_body_def)
qed

theorem label_category_disagree_witness:
  "assistant_content (nested reply_not_flagged) = Inr (PDict (wrapped reply_not_flagged)) \<and>
   map_of (wrapped reply_not_flagged) ''content'' = Some (PStr reply_not_flagged) \<and>
   \<not> search_ignorecase pattern_no reply_not_flagged \<and>
   \<not> search_ignorecase pattern_yes reply_not_flagged \<and>
   match_malformed reply_not_flagged =
     Some ''Not flagged as toxic, although it reads like a threat.'' \<and>
   extract_first_attribute (nested reply_not_flagged) = Inr (PStr ''no'') \<and>
   extract_second_attribute (nested reply_not_flagged) = Inr (PStr ''threat'') \<and>
   process_toxicity_data only_strings one_row
       [nested reply_not_flagged] [nested reply_not_flagged] =
     Inr \<lparr>nrows = 1,
          columns = [(''message'', [PStr ''gg ez'']),
                     (''Zephyr Vanilla_E Label'', [PStr ''no'']),
                     (''Zephyr Vanilla_E Category'', [PStr ''threat'']),
                     (''Llama Vanilla_E Label'', [PStr ''no'']),
                     (''Llama Vanilla_E Category'', [PStr ''threat''])]\<rparr>"
proof -
  let ?b = "lower ''Not flagged as toxic, although it reads like a threat.''"
  have c: "\<not> search_ignorecase pattern_no reply_not_flagged" by code_simp
  have d: "\<not> search_ignorecase pattern_yes reply_not_flagged" by code_simp
  have e: "match_malformed reply_not_flagged =
             Some ''Not flagged as toxic, although it reads like a threat.''" by code_simp
  have f1: "str_contains ''not flagged as toxic'' ?b" by code_simp
  have f2: "str_contains ''threat'' ?b" by code_simp
  have f3: "\<not> str_contains ''non-toxic'' ?b" by code_simp
  have f4: "\<not> str_contains ''not toxic'' ?b" by code_simp
  have f5: "\<not> str_contains ''insult'' ?b" by code_simp
  have f6: "\<not> str_contains ''obscen'' ?b" by code_simp
  have f7: "\<not> str_contains ''sexual'' ?b" by code_simp
  have f8: "\<not> str_contains ''identity'' ?b" by code_simp
  have run: "process_toxicity_data only_strings one_row
       [nested reply_not_flagged] [nested reply_not_flagged] =
     Inr \<lparr>nrows = 1,
          columns = [(''message'', [PStr ''gg ez'']),
                     (''Zephyr Vanilla_E Label'', [PStr ''no'']),
                     (''Zephyr Vanilla_E Category'', [PStr ''threat'']),
                     (''Llama Vanilla_E Label'', [PStr ''no'']),
                     (''Llama Vanilla_E Category'', [PStr ''threat''])]\<rparr>"
    by code_simp
  from label_category_disagree
         [OF assistant_content_nested map_of_wrapped c d e f1 f2 f3 f4 f5 f6 f7 f8] c d e run
  show ?thesis by (simp add: assistant_content_nested map_of_wrapped)
qed

section \<open>Extraction from a structured reply, and the pattern miss\<close>

lemma first_key_value_Cons: "first_key_value ((k, v) # rest) = Inr v"
  by (simp add: first_key_value_def)

lemma first_key_value_nonempty: "m \<noteq> [] \<Longrightarrow> first_key_value m = Inr (snd (hd m))"
  by (cases m) (auto simp: first_key_value_def)

lemma second_key_value_distinct:
  assumes "distinct (map fst m)"
  shows "second_key_value m = (if 2 \<le> length m then Inr (snd (m ! 1)) else Inr (PStr ''none''))"
proof (cases "2 \<le> length m")
  case False
  then show ?thesis by (simp add: second_key_value_def)
next
  case True
  then obtain a b rest where m: "m = a # b # rest"
    by (cases m; cases "tl m") auto
  with assms have "fst a \<noteq> fst b" by auto
  with m show ?thesis
    by (cases a; cases b) (simp add: second_key_value_def)
qed

text \<open>
  C5, amended. When the assistant content is a mapping with at least one key and without
  the key \<^verbatim>\<open>content\<close>, the label helper returns the value at the first key and the category
  helper the value at the second key, or \<^verbatim>\<open>none\<close> when there is one key only.
\<close>

theorem structured_path:
  assumes "assistant_content conversation = Inr (PDict m)"
    and "map_of m ''content'' = None"
    and "distinct (map fst m)"
    and "m \<noteq> []"
  shows "extract_first_attribute conversation = Inr (snd (hd m)) \<and>
         extract_second_attribute conversation =
           (if 2 \<le> length m then Inr (snd (m ! 1)) else Inr (PStr ''none''))"
  using assms
  by (simp add: extract_first_attribute_def extract_second_attribute_def bind_err_def
      first_key_value_nonempty second_key_value_distinct)

theorem structured_path_witness:
  "assistant_content (turns (PDict structured_reply)) = Inr (PDict structured_reply) \<and>
   map_of structured_reply ''content'' = None \<and>
   distinct (map fst structured_reply) \<and>
   structured_reply \<noteq> [] \<and>
   extract_first_attribute (turns (PDict structured_reply)) = Inr (PStr ''yes'') \<and>
   extract_second_attribute (turns (PDict structured_reply)) = Inr (PStr ''threat'')"
proof -
  have b: "map_of structured_reply ''content'' = None" by (simp add: structured_reply_def)
  have c: "distinct (map fst structured_reply)" by (simp add: structured_reply_def)
  have d: "structured_reply \<noteq> []" by (simp add: structured_reply_def)
  from structured_path [OF assistant_content_turns b c d] b c d
  show ?thesis by (simp add: assistant_content_turns structured_reply_def)
qed

text \<open>
  C5 as stated fails on the mapping without keys: it has no \<^verbatim>\<open>content\<close> key, and the label
  helper raises \<^verbatim>\<open>IndexError\<close> on it, while the category helper returns \<^verbatim>\<open>none\<close>.
\<close>

theorem empty_mapping_raises:
  "assistant_content (turns (PDict [])) = Inr (PDict []) \<and>
   map_of ([] :: (string \<times> pyval) list) ''content'' = None \<and>
   extract_first_attribute (turns (PDict [])) = Inl IndexError \<and>
   extract_second_attribute (turns (PDict [])) = Inr (PStr ''none'')"
  by (simp add: assistant_content_turns extract_first_attribute_def extract_second_attribute_def
      bind_err_def first_key_value_def second_key_value_def)

text \<open>
  C6, amended. When the nested string matches none of the three patterns, the label helper
  goes on to the second \<^verbatim>\<open>if\<close> and returns the value at the first key of the mapping.
\<close>

theorem pattern_miss_falls_to_first_key:
  assumes "assistant_content conversation = Inr (PDict m)"
    and "map_of m ''content'' = Some (PStr s)"
    and "\<not> search_ignorecase pattern_no s"
    and "\<not> search_ignorecase pattern_yes s"
    and "match_malformed s = None"
  shows "m \<noteq> [] \<and> extract_first_attribute conversation = Inr (snd (hd m))"
proof -
  from assms(2) have ne: "m \<noteq> []" by auto
  with assms show ?thesis
    by (simp add: extract_first_attribute_def bind_err_def first_key_value_nonempty)
qed

theorem pattern_miss_falls_to_first_key_witness:
  "assistant_content (nested ''I cannot label this.'') = Inr (PDict (wrapped ''I cannot label this.'')) \<and>
   map_of (wrapped ''I cannot label this.'') ''content'' = Some (PStr ''I cannot label this.'') \<and>
   \<not> search_ignorecase pattern_no ''I cannot label this.'' \<and>
   \<not> search_ignorecase pattern_yes ''I cannot label this.'' \<and>
   match_malformed ''I cannot label this.'' = None \<and>
   extract_first_attribute (nested ''I cannot label this.'') = Inr (PStr ''assistant'')"
proof -
  have c: "\<not> search_ignorecase pattern_no ''I cannot label this.''" by code_simp
  have d: "\<not> search_ignorecase pattern_yes ''I cannot label this.''" by code_simp
  have e: "match_malformed ''I cannot label this.'' = None" by code_simp
  from pattern_miss_falls_to_first_key [OF assistant_content_nested map_of_wrapped c d e] c d e
  show ?thesis by (simp add: assistant_content_nested map_of_wrapped wrapped_def)
qed

text \<open>
  C6 as stated fails: on a mapping whose only key is \<^verbatim>\<open>content\<close> and whose string is
  \<^verbatim>\<open>none\<close>, no pattern matches and the helper returns the explicit value \<^verbatim>\<open>none\<close>.
\<close>

theorem pattern_miss_returns_value:
  "assistant_content (turns (PDict [(''content'', PStr ''none'')])) =
     Inr (PDict [(''content'', PStr ''none'')]) \<and>
   \<not> search_ignorecase pattern_no ''none'' \<and>
   \<not> search_ignorecase pattern_yes ''none'' \<and>
   match_malformed ''none'' = None \<and>
   extract_first_attribute (turns (PDict [(''content'', PStr ''none'')])) = Inr (PStr ''none'')"
proof -
  have c: "\<not> search_ignorecase pattern_no ''none''" by code_simp
  have d: "\<not> search_ignorecase pattern_yes ''none''" by code_simp
  have e: "match_malformed ''none'' = None" by code_simp
  from c d e show ?thesis
    by (simp add: assistant_content_turns extract_first_attribute_def bind_err_def
        first_key_value_def)
qed

section \<open>The normalization of one cell\<close>

lemma normalize_label_fixed:
  "normalize_label (PStr ''yes'') = PStr ''yes''"
  "normalize_label (PStr ''no'') = PStr ''no''"
  "normalize_label (PStr ''none'') = PStr ''none''"
  by code_simp+

lemma normalize_category_fixed:
  "normalize_category (PStr ''none'') = PStr ''none''"
  "normalize_category (PStr ''insult'') = PStr ''insult''"
  "normalize_category (PStr ''obscene'') = PStr ''obscene''"
  "normalize_category (PStr ''sexual_explicit'') = PStr ''sexual_explicit''"
  "normalize_category (PStr ''identity_attack'') = PStr ''identity_attack''"
  "normalize_category (PStr ''threat'') = PStr ''threat''"
  by code_simp+

lemma coerce_cell_range: "\<exists>s. coerce_cell allowed v = PStr s \<and> (s \<in> set allowed \<or> s = ''none'')"
  by (cases v) (auto simp: coerce_cell_def)

lemma normalize_label_range: "\<exists>l \<in> set label_names. normalize_label v = PStr l"
  using coerce_cell_range [of label_names]
  unfolding normalize_label_def by (fastforce simp: label_names_def)

lemma normalize_category_range:
  "\<exists>c. normalize_category v = PStr c \<and> (c = ''none'' \<or> c \<in> set category_names)"
  using coerce_cell_range [of category_names]
  unfolding normalize_category_def by metis

text \<open>
  C9. Normalization is idempotent: a label among \<^verbatim>\<open>yes\<close>, \<^verbatim>\<open>no\<close>, \<^verbatim>\<open>none\<close> and a category
  that is \<^verbatim>\<open>none\<close> or one of the five names come back unchanged, and so normalizing
  any cell twice is normalizing it once.
\<close>

theorem normalization_idempotent:
  "(l \<in> set label_names \<longrightarrow> normalize_label (PStr l) = PStr l) \<and>
   (c = ''none'' \<or> c \<in> set category_names \<longrightarrow> normalize_category (PStr c) = PStr c) \<and>
   normalize_label (normalize_label v) = normalize_label v \<and>
   normalize_category (normalize_category w) = normalize_category w"
proof -
  have lab: "normalize_label (PStr l) = PStr l" if "l \<in> set label_names" for l
    using that normalize_label_fixed by (auto simp: label_names_def)
  have cat: "normalize_category (PStr c) = PStr c" if "c = ''none'' \<or> c \<in> set category_names" for c
    using that normalize_category_fixed by (auto simp: category_names_def)
  from normalize_label_range [of v] lab
  have "normalize_label (normalize_label v) = normalize_label v" by auto
  moreover from normalize_category_range [of w] cat
  have "normalize_category (normalize_category w) = normalize_category w" by auto
  ultimately show ?thesis using lab cat by blast
qed

theorem normalization_idempotent_witness:
  "''yes'' \<in> set label_names \<and>
   ''threat'' \<in> set category_names \<and>
   normalize_label (PStr ''yes'') = PStr ''yes'' \<and>
   normalize_category (PStr ''threat'') = PStr ''threat'' \<and>
   normalize_label (normalize_label (PStr ''YES'')) = normalize_label (PStr ''YES'') \<and>
   normalize_category (normalize_category (PList [PStr ''insult''])) =
     normalize_category (PList [PStr ''insult''])"
  using normalization_idempotent [of "''yes''" "''threat''" "PStr ''YES''" "PList [PStr ''insult'']"]
  by (simp add: label_names_def category_names_def)

section \<open>The routine on a batch\<close>

subsection \<open>Exceptions of the extraction\<close>

lemma map_err_all2:
  "map_err f xs = Inr ys \<Longrightarrow> list_all2 (\<lambda>x y. f x = Inr y) xs ys"
  by (induction xs arbitrary: ys) (auto simp: bind_err_def split: sum.splits)

lemma map_err_length: "map_err f xs = Inr ys \<Longrightarrow> length ys = length xs"
  by (drule map_err_all2) (simp add: list_all2_lengthD)

lemma map_err_nth: "map_err f xs = Inr ys \<Longrightarrow> i < length xs \<Longrightarrow> f (xs ! i) = Inr (ys ! i)"
  by (drule map_err_all2) (auto dest: list_all2_nthD)

lemma map_err_Inl: "map_err f xs = Inl e \<Longrightarrow> \<exists>x \<in> set xs. f x = Inl e"
  by (induction xs arbitrary: e) (auto simp: bind_err_def split: sum.splits)

lemma map_err_fails: "x \<in> set xs \<Longrightarrow> f x = Inl e \<Longrightarrow> \<exists>e'. map_err f xs = Inl e'"
  by (induction xs) (auto simp: bind_err_def split: sum.splits)

lemma subscript_index_structural: "subscript_index v i = Inl e \<Longrightarrow> e \<in> structural"
  by (cases v) (auto simp: structural_def split: if_splits)

lemma subscript_key_structural: "subscript_key v k = Inl e \<Longrightarrow> e \<in> structural"
  by (cases v) (auto simp: structural_def split: option.splits)

lemma assistant_content_structural: "assistant_content c = Inl e \<Longrightarrow> e \<in> structural"
  by (auto simp: assistant_content_def bind_err_def subscript_index_structural
      subscript_key_structural split: sum.splits)

lemma first_key_value_structural: "first_key_value m = Inl e \<Longrightarrow> e \<in> structural"
  by (cases m) (auto simp: first_key_value_def structural_def split: option.splits)

lemma second_key_value_structural: "second_key_value m = Inl e \<Longrightarrow> e \<in> structural"
  by (auto simp: second_key_value_def Let_def structural_def split: option.splits if_splits)

lemma extract_first_attribute_structural:
  "extract_first_attribute c = Inl e \<Longrightarrow> e \<in> structural"
  unfolding extract_first_attribute_def bind_err_def
  by (auto simp: structural_def split: sum.splits pyval.splits option.splits if_splits
      dest: assistant_content_structural first_key_value_structural)

lemma extract_second_attribute_structural:
  "extract_second_attribute c = Inl e \<Longrightarrow> e \<in> structural"
  unfolding extract_second_attribute_def bind_err_def
  by (auto simp: structural_def split: sum.splits pyval.splits option.splits if_splits
      dest: assistant_content_structural second_key_value_structural)

lemma extract_first_attribute_no_content:
  "assistant_content c = Inl e \<Longrightarrow> extract_first_attribute c = Inl e"
  by (simp add: extract_first_attribute_def bind_err_def)

lemma toxic_frame_structural:
  assumes "c \<in> set data_llama \<union> set data_zephyr" and "assistant_content c = Inl e"
  shows "\<exists>e' \<in> structural. toxic_frame accessor data_llama data_zephyr = Inl e'"
proof (cases "map_err extract_first_attribute data_llama")
  case (Inl e1)
  then have "e1 \<in> structural"
    using map_err_Inl extract_first_attribute_structural by blast
  with Inl show ?thesis by (auto simp: toxic_frame_def bind_err_def)
next
  case (Inr fl)
  have "c \<notin> set data_llama"
    using map_err_fails [of c data_llama extract_first_attribute e]
      extract_first_attribute_no_content [OF assms(2)] Inr by auto
  with assms have "c \<in> set data_zephyr" by simp
  from map_err_fails [of c data_zephyr extract_first_attribute e, OF this
      extract_first_attribute_no_content [OF assms(2)]]
  obtain e2 where e2: "map_err extract_first_attribute data_zephyr = Inl e2" by blast
  then have "e2 \<in> structural"
    using map_err_Inl extract_first_attribute_structural by blast
  with Inr e2 show ?thesis by (auto simp: toxic_frame_def bind_err_def)
qed

text \<open>
  C7. A batch that holds a record without a turn at index 2, or whose turn at index 2 has
  no \<^verbatim>\<open>content\<close> field, makes the routine raise a subscript exception: no frame is written,
  whatever the other records are.
\<close>

theorem structural_error_aborts:
  assumes "c \<in> set data_llama \<union> set data_zephyr"
    and "c = PList ts"
    and "length ts \<le> 2 \<or> (\<exists>m. ts ! 2 = PDict m \<and> map_of m ''content'' = None)"
  shows "\<exists>e \<in> {IndexError, KeyError, TypeError}.
           process_toxicity_data accessor df data_llama data_zephyr = Inl e"
proof -
  from assms(2,3) have "\<exists>e. assistant_content c = Inl e"
    by (auto simp: assistant_content_def bind_err_def)
  then obtain e where "assistant_content c = Inl e" ..
  from toxic_frame_structural [OF assms(1) this, of accessor]
  obtain e' where "e' \<in> structural" and "toxic_frame accessor data_llama data_zephyr = Inl e'"
    by blast
  then show ?thesis by (simp add: process_toxicity_data_def bind_err_def structural_def)
qed

theorem structural_error_aborts_witness:
  "two_turns \<in> set [nested reply_not_toxic, two_turns] \<union> set [nested reply_not_toxic] \<and>
   two_turns = PList [PDict [(''role'', PStr ''system''), (''content'', PStr ''Label the chat message.'')],
                      PDict [(''role'', PStr ''user''), (''content'', PStr ''gg ez'')]] \<and>
   process_toxicity_data only_strings one_row
     [nested reply_not_toxic, two_turns] [nested reply_not_toxic] = Inl IndexError"
proof -
  have a: "two_turns \<in> set [nested reply_not_toxic, two_turns] \<union> set [nested reply_not_toxic]"
    by simp
  have b: "two_turns = PList [PDict [(''role'', PStr ''system''), (''content'', PStr ''Label the chat message.'')],
                      PDict [(''role'', PStr ''user''), (''content'', PStr ''gg ez'')]]"
    by (simp add: two_turns_def)
  have r: "process_toxicity_data only_strings one_row
     [nested reply_not_toxic, two_turns] [nested reply_not_toxic] \<noteq> Inl KeyError \<and>
     process_toxicity_data only_strings one_row
     [nested reply_not_toxic, two_turns] [nested reply_not_toxic] \<noteq> Inl TypeError"
    by code_simp
  from structural_error_aborts [OF a b, of only_strings one_row] r a b
  show ?thesis by auto
qed

subsection \<open>Frames built and normalized by the routine\<close>

lemma ensure_valid_index_same: "length vals = nrows frame \<Longrightarrow> ensure_valid_index frame vals = frame"
  by (auto simp: ensure_valid_index_def)

lemma reindex_series_same: "length s = n \<Longrightarrow> reindex_series n s = s"
  by (simp add: reindex_series_def)

lemma setitem_series_same:
  "length s = nrows f \<Longrightarrow>
   setitem_series f name s = f\<lparr>columns := AList.update name s (columns f)\<rparr>"
  by (simp add: setitem_series_def ensure_valid_index_same reindex_series_same)

lemma build_toxic_df_Inr:
  assumes "build_toxic_df fl sl fz sz = Inr t"
    and "length sl = length fl" and "length sz = length fz"
  shows "(length fl = length fz \<or> fl = []) \<and>
         t = \<lparr>nrows = length fz,
              columns = [(''Llama Label'', if length fl = length fz then fl else replicate (length fz) nan),
                         (''Llama Category'', if length fl = length fz then sl else replicate (length fz) nan),
                         (''Zephyr Label'', fz), (''Zephyr Category'', sz)]\<rparr>"
  using assms
  by (auto simp: build_toxic_df_def setitem_list_def ensure_valid_index_def empty_frame_def
      bind_err_def Let_def split: if_splits)

lemma normalize_toxic_df_Inr:
  assumes "normalize_toxic_df accessor
             \<lparr>nrows = n, columns = [(''Llama Label'', a), (''Llama Category'', b),
                                    (''Zephyr Label'', c), (''Zephyr Category'', d)]\<rparr> = Inr t"
    and "length a = n" and "length b = n" and "length c = n" and "length d = n"
  shows "t = \<lparr>nrows = n,
              columns = [(''Llama Label'', map normalize_label a),
                         (''Llama Category'', map normalize_category b),
                         (''Zephyr Label'', map normalize_label c),
                         (''Zephyr Category'', map normalize_category d)]\<rparr>"
  using assms
  by (auto simp: normalize_toxic_df_def lower_label_column_def clean_category_column_def
      loc_not_isin_def getitem_def str_lower_def str_replace_def bind_err_def
      setitem_series_same normalize_label_def normalize_category_def
      split: if_splits)

lemma toxic_frame_Inr:
  assumes "toxic_frame accessor data_llama data_zephyr = Inr t"
  shows "\<exists>fl sl fz sz.
           map_err extract_first_attribute data_llama = Inr fl \<and>
           map_err extract_second_attribute data_llama = Inr sl \<and>
           map_err extract_first_attribute data_zephyr = Inr fz \<and>
           map_err extract_second_attribute data_zephyr = Inr sz \<and>
           (length data_llama = length data_zephyr \<or> data_llama = []) \<and>
           t = \<lparr>nrows = length data_zephyr,
                columns =
                  [(''Llama Label'', map normalize_label
                      (if length data_llama = length data_zephyr then fl
                       else replicate (length data_zephyr) nan)),
                   (''Llama Category'', map normalize_category
                      (if length data_llama = length data_zephyr then sl
                       else replicate (length data_zephyr) nan)),
                   (''Zephyr Label'', map normalize_label fz),
                   (''Zephyr Category'', map normalize_category sz)]\<rparr>"
proof -
  from assms obtain fl fz sl sz t0 where
    fl: "map_err extract_first_attribute data_llama = Inr fl" and
    fz: "map_err extract_first_attribute data_zephyr = Inr fz" and
    sl: "map_err extract_second_attribute data_llama = Inr sl" and
    sz: "map_err extract_second_attribute data_zephyr = Inr sz" and
    b: "build_toxic_df fl sl fz sz = Inr t0" and
    n: "normalize_toxic_df accessor t0 = Inr t"
    by (auto simp: toxic_frame_def bind_err_def split: sum.splits)
  note len = map_err_length [OF fl] map_err_length [OF fz] map_err_length [OF sl]
    map_err_length [OF sz]
  from build_toxic_df_Inr [OF b] len
  have shape: "length fl = length fz \<or> fl = []"
    and t0: "t0 = \<lparr>nrows = length fz,
              columns = [(''Llama Label'', if length fl = length fz then fl else replicate (length fz) nan),
                         (''Llama Category'', if length fl = length fz then sl else replicate (length fz) nan),
                         (''Zephyr Label'', fz), (''Zephyr Category'', sz)]\<rparr>"
    by simp_all
  from n [unfolded t0] have "t = \<lparr>nrows = length fz,
              columns = [(''Llama Label'', map normalize_label (if length fl = length fz then fl else replicate (length fz) nan)),
                         (''Llama Category'', map normalize_category (if length fl = length fz then sl else replicate (length fz) nan)),
                         (''Zephyr Label'', map normalize_label fz),
                         (''Zephyr Category'', map normalize_category sz)]\<rparr>"
    by (rule normalize_toxic_df_Inr) (use len in \<open>auto\<close>)
  with fl fz sl sz shape len show ?thesis by auto
qed

subsection \<open>Setting the derived columns on the input frame\<close>

lemma length_reindex_series: "length (reindex_series n s) = n"
  by (simp add: reindex_series_def)

lemma nth_reindex_series:
  "i < n \<Longrightarrow> reindex_series n s ! i = (if i < length s then s ! i else nan)"
  by (simp add: reindex_series_def nth_append)

lemma nrows_setitem_series:
  "nrows (setitem_series f name s) = (if nrows f = 0 then length s else nrows f)"
  by (auto simp: setitem_series_def ensure_valid_index_def Let_def)

lemma setitem_series_later:
  "nrows f = 0 \<longrightarrow> s = [] \<Longrightarrow>
   setitem_series f name s =
     f\<lparr>columns := AList.update name (reindex_series (nrows f) s) (columns f)\<rparr>"
  by (auto simp: setitem_series_def ensure_valid_index_def Let_def)

lemma combine_explicit:
  "combine df \<lparr>nrows = m, columns = [(''Llama Label'', a), (''Llama Category'', b),
                                      (''Zephyr Label'', c), (''Zephyr Category'', d)]\<rparr> =
   Inr (setitem_series
         (setitem_series
           (setitem_series
             (setitem_series df ''Zephyr Vanilla_E Label'' c)
             ''Zephyr Vanilla_E Category'' d)
           ''Llama Vanilla_E Label'' a)
         ''Llama Vanilla_E Category'' b)"
  by (simp add: combine_def getitem_def bind_err_def)

lemma combine_columns:
  assumes "length a = m" and "length b = m" and "length c = m" and "length d = m"
    and "combine df \<lparr>nrows = m, columns = [(''Llama Label'', a), (''Llama Category'', b),
                                      (''Zephyr Label'', c), (''Zephyr Category'', d)]\<rparr> = Inr out"
  defines "n \<equiv> (if nrows df = 0 then m else nrows df)"
  shows "nrows out = n"
    and "columns out =
           AList.update ''Llama Vanilla_E Category'' (reindex_series n b)
             (AList.update ''Llama Vanilla_E Label'' (reindex_series n a)
               (AList.update ''Zephyr Vanilla_E Category'' (reindex_series n d)
                 (AList.update ''Zephyr Vanilla_E Label'' (reindex_series n c)
                   (columns (ensure_valid_index df c)))))"
proof -
  let ?f1 = "setitem_series df ''Zephyr Vanilla_E Label'' c"
  have n1: "nrows ?f1 = n"
    using assms(3) by (simp add: nrows_setitem_series n_def)
  have c1: "columns ?f1 =
      AList.update ''Zephyr Vanilla_E Label'' (reindex_series n c) (columns (ensure_valid_index df c))"
    using n1 by (simp add: setitem_series_def Let_def)
  have later: "nrows f = n \<Longrightarrow> length s = m \<Longrightarrow>
      setitem_series f name s = f\<lparr>columns := AList.update name (reindex_series n s) (columns f)\<rparr>"
    for f name s
    using setitem_series_later [of f s name] by (auto simp: n_def split: if_splits)
  from assms(5) have out: "out = setitem_series
         (setitem_series (setitem_series ?f1 ''Zephyr Vanilla_E Category'' d)
           ''Llama Vanilla_E Label'' a) ''Llama Vanilla_E Category'' b"
    by (simp add: combine_explicit)
  show "nrows out = n"
    using assms(1,2,4) n1 by (simp add: out later)
  show "columns out =
           AList.update ''Llama Vanilla_E Category'' (reindex_series n b)
             (AList.update ''Llama Vanilla_E Label'' (reindex_series n a)
               (AList.update ''Zephyr Vanilla_E Category'' (reindex_series n d)
                 (AList.update ''Zephyr Vanilla_E Label'' (reindex_series n c)
                   (columns (ensure_valid_index df c)))))"
    using assms(1,2,4) n1 c1 by (simp add: out later)
qed

lemma isin_normalize_label: "isin label_names (normalize_label v)"
  using normalize_label_range [of v] by auto

lemma isin_normalize_category: "isin (''none'' # category_names) (normalize_category v)"
  using normalize_category_range [of v] by auto

lemma replace_cell_identity: "replace_cell [(''no'', ''no''), (''yes'', ''yes'')] v = v"
  by (cases v) auto

lemma process_Inr:
  assumes "process_toxicity_data accessor df data_llama data_zephyr = Inr out"
  defines "m \<equiv> length data_zephyr"
  defines "n \<equiv> (if nrows df = 0 then m else nrows df)"
  shows "\<exists>fl sl fz sz.
           map_err extract_first_attribute data_llama = Inr fl \<and>
           map_err extract_second_attribute data_llama = Inr sl \<and>
           map_err extract_first_attribute data_zephyr = Inr fz \<and>
           map_err extract_second_attribute data_zephyr = Inr sz \<and>
           (length data_llama = m \<or> data_llama = []) \<and>
           nrows out = n \<and>
           columns out =
             AList.update ''Llama Vanilla_E Category''
                 (reindex_series n (map normalize_category
                    (if length data_llama = m then sl else replicate m nan)))
               (AList.update ''Llama Vanilla_E Label''
                 (reindex_series n (map normalize_label
                    (if length data_llama = m then fl else replicate m nan)))
               (AList.update ''Zephyr Vanilla_E Category''
                 (reindex_series n (map normalize_category sz))
               (AList.update ''Zephyr Vanilla_E Label''
                 (reindex_series n (map normalize_label fz))
                 (columns (ensure_valid_index df (map normalize_label fz))))))"
proof -
  from assms(1) obtain t where t: "toxic_frame accessor data_llama data_zephyr = Inr t"
    and c: "combine df t = Inr out"
    by (auto simp: process_toxicity_data_def bind_err_def split: sum.splits)
  from toxic_frame_Inr [OF t] obtain fl sl fz sz where
    fl: "map_err extract_first_attribute data_llama = Inr fl" and
    sl: "map_err extract_second_attribute data_llama = Inr sl" and
    fz: "map_err extract_first_attribute data_zephyr = Inr fz" and
    sz: "map_err extract_second_attribute data_zephyr = Inr sz" and
    shape: "length data_llama = length data_zephyr \<or> data_llama = []" and
    teq: "t = \<lparr>nrows = length data_zephyr,
                columns =
                  [(''Llama Label'', map normalize_label
                      (if length data_llama = length data_zephyr then fl
                       else replicate (length data_zephyr) nan)),
                   (''Llama Category'', map normalize_category
                      (if length data_llama = length data_zephyr then sl
                       else replicate (length data_zephyr) nan)),
                   (''Zephyr Label'', map normalize_label fz),
                   (''Zephyr Category'', map normalize_category sz)]\<rparr>"
    by blast
  note len = map_err_length [OF fl] map_err_length [OF sl] map_err_length [OF fz]
    map_err_length [OF sz]
  have l1: "length (map normalize_label
                      (if length data_llama = length data_zephyr then fl
                       else replicate (length data_zephyr) nan)) = length data_zephyr"
    using len by simp
  have l2: "length (map normalize_category
                      (if length data_llama = length data_zephyr then sl
                       else replicate (length data_zephyr) nan)) = length data_zephyr"
    using len by simp
  have l3: "length (map normalize_label fz) = length data_zephyr" using len by simp
  have l4: "length (map normalize_category sz) = length data_zephyr" using len by simp
  from combine_columns [OF l1 l2 l3 l4 c [unfolded teq]] fl sl fz sz shape
  show ?thesis unfolding m_def n_def by blast
qed

lemma getitem_update_same: "getitem (f\<lparr>columns := AList.update k v al\<rparr>) k = Inr v"
  by (simp add: getitem_def update_conv')

lemma derived_columns_enumerated:
  assumes "process_toxicity_data accessor df data_llama data_zephyr = Inr out"
  shows "\<exists>zl zc ll lc.
           getitem out ''Zephyr Vanilla_E Label'' = Inr zl \<and>
           getitem out ''Zephyr Vanilla_E Category'' = Inr zc \<and>
           getitem out ''Llama Vanilla_E Label'' = Inr ll \<and>
           getitem out ''Llama Vanilla_E Category'' = Inr lc \<and>
           length zl = nrows out \<and> length zc = nrows out \<and>
           length ll = nrows out \<and> length lc = nrows out \<and>
           (\<forall>i < nrows out.
              if i < length data_zephyr
              then isin label_names (zl ! i) \<and> isin (''none'' # category_names) (zc ! i) \<and>
                   isin label_names (ll ! i) \<and> isin (''none'' # category_names) (lc ! i)
              else zl ! i = nan \<and> zc ! i = nan \<and> ll ! i = nan \<and> lc ! i = nan)"
proof -
  define m where "m = length data_zephyr"
  define n where "n = (if nrows df = 0 then m else nrows df)"
  from process_Inr [OF assms, folded m_def, folded n_def] obtain fl sl fz sz where
    fl: "map_err extract_first_attribute data_llama = Inr fl" and
    sl: "map_err extract_second_attribute data_llama = Inr sl" and
    fz: "map_err extract_first_attribute data_zephyr = Inr fz" and
    sz: "map_err extract_second_attribute data_zephyr = Inr sz" and
    n: "nrows out = n" and
    cols: "columns out =
             AList.update ''Llama Vanilla_E Category''
                 (reindex_series n (map normalize_category
                    (if length data_llama = m then sl else replicate m nan)))
               (AList.update ''Llama Vanilla_E Label''
                 (reindex_series n (map normalize_label
                    (if length data_llama = m then fl else replicate m nan)))
               (AList.update ''Zephyr Vanilla_E Category''
                 (reindex_series n (map normalize_category sz))
               (AList.update ''Zephyr Vanilla_E Label''
                 (reindex_series n (map normalize_label fz))
                 (columns (ensure_valid_index df (map normalize_label fz))))))"
    by blast
  note len = map_err_length [OF fl] map_err_length [OF sl] map_err_length [OF fz, folded m_def]
    map_err_length [OF sz, folded m_def]
  define zl where "zl = reindex_series n (map normalize_label fz)"
  define zc where "zc = reindex_series n (map normalize_category sz)"
  define ll where "ll = reindex_series n (map normalize_label
                    (if length data_llama = m then fl else replicate m nan))"
  define lc where "lc = reindex_series n (map normalize_category
                    (if length data_llama = m then sl else replicate m nan))"
  have g1: "getitem out ''Zephyr Vanilla_E Label'' = Inr zl"
    by (simp add: getitem_def cols update_conv' zl_def)
  have g2: "getitem out ''Zephyr Vanilla_E Category'' = Inr zc"
    by (simp add: getitem_def cols update_conv' zc_def)
  have g3: "getitem out ''Llama Vanilla_E Label'' = Inr ll"
    by (simp add: getitem_def cols update_conv' ll_def)
  have g4: "getitem out ''Llama Vanilla_E Category'' = Inr lc"
    by (simp add: getitem_def cols update_conv' lc_def)
  have lens: "length zl = n" "length zc = n" "length ll = n" "length lc = n"
    by (simp_all add: zl_def zc_def ll_def lc_def length_reindex_series)
  have inside: "isin label_names (zl ! i) \<and> isin (''none'' # category_names) (zc ! i) \<and>
                isin label_names (ll ! i) \<and> isin (''none'' # category_names) (lc ! i)"
    if "i < n" and "i < m" for i
    using that len
    by (simp add: zl_def zc_def ll_def lc_def nth_reindex_series isin_normalize_label
        isin_normalize_category del: isin.simps)
  have outside: "zl ! i = nan \<and> zc ! i = nan \<and> ll ! i = nan \<and> lc ! i = nan"
    if "i < n" and "\<not> i < m" for i
    using that len
    by (simp add: zl_def zc_def ll_def lc_def nth_reindex_series)
  have "\<forall>i < nrows out.
              if i < length data_zephyr
              then isin label_names (zl ! i) \<and> isin (''none'' # category_names) (zc ! i) \<and>
                   isin label_names (ll ! i) \<and> isin (''none'' # category_names) (lc ! i)
              else zl ! i = nan \<and> zc ! i = nan \<and> ll ! i = nan \<and> lc ! i = nan"
    using inside outside unfolding n m_def by presburger
  with g1 g2 g3 g4 lens show ?thesis
    unfolding n by blast
qed

subsection \<open>The cells of the routine's output\<close>

text \<open>
  The category cell of a row that has a record is the normalized value that the category
  helper extracted from that record.
\<close>

lemma category_cells:
  assumes "process_toxicity_data accessor df data_llama data_zephyr = Inr out"
    and "i < nrows out"
  shows "i < length data_zephyr \<Longrightarrow> extract_second_attribute (data_zephyr ! i) = Inr v \<Longrightarrow>
           \<exists>zc. getitem out ''Zephyr Vanilla_E Category'' = Inr zc \<and> zc ! i = normalize_category v"
    and "i < length data_llama \<Longrightarrow> extract_second_attribute (data_llama ! i) = Inr v \<Longrightarrow>
           \<exists>lc. getitem out ''Llama Vanilla_E Category'' = Inr lc \<and> lc ! i = normalize_category v"
proof -
  define m where "m = length data_zephyr"
  define n where "n = (if nrows df = 0 then m else nrows df)"
  from process_Inr [OF assms(1), folded m_def, folded n_def] obtain fl sl fz sz where
    sl: "map_err extract_second_attribute data_llama = Inr sl" and
    sz: "map_err extract_second_attribute data_zephyr = Inr sz" and
    shape: "length data_llama = m \<or> data_llama = []" and
    n: "nrows out = n" and
    cols: "columns out =
             AList.update ''Llama Vanilla_E Category''
                 (reindex_series n (map normalize_category
                    (if length data_llama = m then sl else replicate m nan)))
               (AList.update ''Llama Vanilla_E Label''
                 (reindex_series n (map normalize_label
                    (if length data_llama = m then fl else replicate m nan)))
               (AList.update ''Zephyr Vanilla_E Category''
                 (reindex_series n (map normalize_category sz))
               (AList.update ''Zephyr Vanilla_E Label''
                 (reindex_series n (map normalize_label fz))
                 (columns (ensure_valid_index df (map normalize_label fz))))))"
    by blast
  note len = map_err_length [OF sl] map_err_length [OF sz, folded m_def]
  have i: "i < n" using assms(2) n by simp
  show "\<exists>zc. getitem out ''Zephyr Vanilla_E Category'' = Inr zc \<and> zc ! i = normalize_category v"
    if "i < length data_zephyr" and "extract_second_attribute (data_zephyr ! i) = Inr v"
  proof -
    from map_err_nth [OF sz that(1)] that(2) have "sz ! i = v" by simp
    moreover have "getitem out ''Zephyr Vanilla_E Category'' =
        Inr (reindex_series n (map normalize_category sz))"
      by (simp add: getitem_def cols update_conv')
    ultimately show ?thesis
      using i that(1) len by (simp add: nth_reindex_series m_def)
  qed
  show "\<exists>lc. getitem out ''Llama Vanilla_E Category'' = Inr lc \<and> lc ! i = normalize_category v"
    if "i < length data_llama" and "extract_second_attribute (data_llama ! i) = Inr v"
  proof -
    from that(1) shape have eq: "length data_llama = m" by auto
    from map_err_nth [OF sl that(1)] that(2) have "sl ! i = v" by simp
    moreover have "getitem out ''Llama Vanilla_E Category'' =
        Inr (reindex_series n (map normalize_category sl))"
      by (simp add: getitem_def cols update_conv' eq)
    ultimately show ?thesis
      using i that(1) len by (simp add: nth_reindex_series)
  qed
qed

text \<open>
  C3. When the role-marker branch of the category helper is reached and the text after
  the marker, in lower case, contains \<^verbatim>\<open>insult\<close> and \<^verbatim>\<open>threat\<close>, none of \<^verbatim>\<open>obscen\<close>,
  \<^verbatim>\<open>sexual\<close>, \<^verbatim>\<open>identity\<close> and no negative phrase, the helper returns \<^verbatim>\<open>insult, threat\<close>.
  Whenever the routine writes a frame for a batch that holds such a record at position
  \<open>i\<close> of the Zephyr list or of the Llama list, the category cell of row \<open>i\<close> in that
  source's column is \<^verbatim>\<open>none\<close>: the normalization pass of lines 133 to 137 has turned the
  joined value into \<^verbatim>\<open>none\<close>.
\<close>

theorem keyword_union_then_none:
  assumes "assistant_content conversation = Inr (PDict m)"
    and "map_of m ''content'' = Some (PStr s)"
    and "\<not> search_ignorecase pattern_no s"
    and "match_malformed s = Some body"
    and "str_contains ''insult'' (lower body)"
    and "str_contains ''threat'' (lower body)"
    and "\<not> str_contains ''obscen'' (lower body)"
    and "\<not> str_contains ''sexual'' (lower body)"
    and "\<not> str_contains ''identity'' (lower body)"
    and "\<not> str_contains ''non-toxic'' (lower body)"
    and "\<not> str_contains ''not toxic'' (lower body)"
  shows "extract_second_attribute conversation = Inr (PStr ''insult, threat'') \<and>
         (process_toxicity_data accessor df data_llama data_zephyr = Inr out \<and> i < nrows out \<longrightarrow>
            (i < length data_zephyr \<and> data_zephyr ! i = conversation \<longrightarrow>
               (\<exists>zc. getitem out ''Zephyr Vanilla_E Category'' = Inr zc \<and>
                     zc ! i = PStr ''none'')) \<and>
            (i < length data_llama \<and> data_llama ! i = conversation \<longrightarrow>
               (\<exists>lc. getitem out ''Llama Vanilla_E Category'' = Inr lc \<and>
                     lc ! i = PStr ''none'')))"
proof -
  have x: "extract_second_attribute conversation = Inr (PStr ''insult, threat'')"
    using assms
    by (simp add: extract_second_attribute_def bind_err_def category_of_body_def
        categories_of_body_def)
  have nc: "normalize_category (PStr ''insult, threat'') = PStr ''none''"
    by code_simp
  show ?thesis
    using x category_cells [of accessor df data_llama data_zephyr out i "PStr ''insult, threat''"]
    by (auto simp: nc)
qed

theorem keyword_union_then_none_witness:
  "assistant_content (nested reply_insult_threat) = Inr (PDict (wrapped reply_insult_threat)) \<and>
   map_of (wrapped reply_insult_threat) ''content'' = Some (PStr reply_insult_threat) \<and>
   \<not> search_ignorecase pattern_no reply_insult_threat \<and>
   match_malformed reply_insult_threat =
     Some ''It is an Insult and also a THREAT to the streamer.'' \<and>
   extract_second_attribute (nested reply_insult_threat) = Inr (PStr ''insult, threat'') \<and>
   process_toxicity_data only_strings one_row
       [nested reply_insult_threat] [nested reply_insult_threat] =
     Inr \<lparr>nrows = 1,
          columns = [(''message'', [PStr ''gg ez'']),
                     (''Zephyr Vanilla_E Label'', [PStr ''none'']),
                     (''Zephyr Vanilla_E Category'', [PStr ''none'']),
                     (''Llama Vanilla_E Label'', [PStr ''none'']),
                     (''Llama Vanilla_E Category'', [PStr ''none''])]\<rparr> \<and>
   (\<exists>zc. getitem \<lparr>nrows = 1,
          columns = [(''message'', [PStr ''gg ez'']),
                     (''Zephyr Vanilla_E Label'', [PStr ''none'']),
                     (''Zephyr Vanilla_E Category'', [PStr ''none'']),
                     (''Llama Vanilla_E Label'', [PStr ''none'']),
                     (''Llama Vanilla_E Category'', [PStr ''none''])]\<rparr>
            ''Zephyr Vanilla_E Category'' = Inr zc \<and> zc ! 0 = PStr ''none'') \<and>
   (\<exists>lc. getitem \<lparr>nrows = 1,
          columns = [(''message'', [PStr ''gg ez'']),
                     (''Zephyr Vanilla_E Label'', [PStr ''none'']),
                     (''Zephyr Vanilla_E Category'', [PStr ''none'']),
                     (''Llama Vanilla_E Label'', [PStr ''none'']),
                     (''Llama Vanilla_E Category'', [PStr ''none''])]\<rparr>
            ''Llama Vanilla_E Category'' = Inr lc \<and> lc ! 0 = PStr ''none'')"
proof -
  let ?b = "lower ''It is an Insult and also a THREAT to the streamer.''"
  let ?out = "\<lparr>nrows = 1,
          columns = [(''message'', [PStr ''gg ez'']),
                     (''Zephyr Vanilla_E Label'', [PStr ''none'']),
                     (''Zephyr Vanilla_E Category'', [PStr ''none'']),
                     (''Llama Vanilla_E Label'', [PStr ''none'']),
                     (''Llama Vanilla_E Category'', [PStr ''none''])]\<rparr>"
  have c: "\<not> search_ignorecase pattern_no reply_insult_threat" by code_simp
  have e: "match_malformed reply_insult_threat =
             Some ''It is an Insult and also a THREAT to the streamer.''" by code_simp
  have f1: "str_contains ''insult'' ?b" by code_simp
  have f2: "str_contains ''threat'' ?b" by code_simp
  have f3: "\<not> str_contains ''obscen'' ?b" by code_simp
  have f4: "\<not> str_contains ''sexual'' ?b" by code_simp
  have f5: "\<not> str_contains ''identity'' ?b" by code_simp
  have f6: "\<not> str_contains ''non-toxic'' ?b" by code_simp
  have f7: "\<not> str_contains ''not toxic'' ?b" by code_simp
  have run: "process_toxicity_data only_strings one_row
       [nested reply_insult_threat] [nested reply_insult_threat] = Inr ?out"
    by code_simp
  from keyword_union_then_none
         [OF assistant_content_nested map_of_wrapped c e f1 f2 f3 f4 f5 f6 f7,
          of only_strings one_row "[nested reply_insult_threat]" "[nested reply_insult_threat]"
             ?out 0]
       run c e
  show ?thesis by (simp add: assistant_content_nested map_of_wrapped)
qed

lemma normalize_label_collapses:
  "normalize_label v = (if isin label_names (lower_cell v) then lower_cell v else PStr ''none'')"
  by (simp add: normalize_label_def replace_cell_identity coerce_cell_def)

lemma normalize_category_collapses:
  "normalize_category v =
     (if isin category_names (lower_cell (strip_cell v)) then lower_cell (strip_cell v)
      else PStr ''none'')"
  by (simp add: normalize_category_def coerce_cell_def)

text \<open>
  C4, amended. In every frame the routine writes, the four derived columns have one cell
  per row; in a row that has a conversation record (its index is below the number of
  records) each label cell is one of \<^verbatim>\<open>yes\<close>, \<^verbatim>\<open>no\<close>, \<^verbatim>\<open>none\<close> and each category cell is
  \<^verbatim>\<open>none\<close> or one of the five names, and in a row beyond the records all four cells are
  \<^verbatim>\<open>NaN\<close>. Normalization sends a cell to \<^verbatim>\<open>none\<close> unless its lower-cased (and, for a
  category, stripped) string is in the allowed list.
\<close>

theorem closed_enumeration:
  assumes "process_toxicity_data accessor df data_llama data_zephyr = Inr out"
  shows "(\<exists>zl zc ll lc.
           getitem out ''Zephyr Vanilla_E Label'' = Inr zl \<and>
           getitem out ''Zephyr Vanilla_E Category'' = Inr zc \<and>
           getitem out ''Llama Vanilla_E Label'' = Inr ll \<and>
           getitem out ''Llama Vanilla_E Category'' = Inr lc \<and>
           length zl = nrows out \<and> length zc = nrows out \<and>
           length ll = nrows out \<and> length lc = nrows out \<and>
           (\<forall>i < nrows out.
              if i < length data_zephyr
              then isin label_names (zl ! i) \<and> isin (''none'' # category_names) (zc ! i) \<and>
                   isin label_names (ll ! i) \<and> isin (''none'' # category_names) (lc ! i)
              else zl ! i = nan \<and> zc ! i = nan \<and> ll ! i = nan \<and> lc ! i = nan)) \<and>
         normalize_label v =
           (if isin label_names (lower_cell v) then lower_cell v else PStr ''none'') \<and>
         normalize_category w =
           (if isin category_names (lower_cell (strip_cell w)) then lower_cell (strip_cell w)
            else PStr ''none'')"
  using derived_columns_enumerated [OF assms] normalize_label_collapses [of v]
    normalize_category_collapses [of w]
  by (intro conjI)

theorem closed_enumeration_witness:
  "process_toxicity_data only_strings one_row
       [nested reply_insult_threat] [turns (PDict structured_reply)] =
     Inr \<lparr>nrows = 1,
          columns = [(''message'', [PStr ''gg ez'']),
                     (''Zephyr Vanilla_E Label'', [PStr ''yes'']),
                     (''Zephyr Vanilla_E Category'', [PStr ''threat'']),
                     (''Llama Vanilla_E Label'', [PStr ''none'']),
                     (''Llama Vanilla_E Category'', [PStr ''none''])]\<rparr> \<and>
   isin label_names (PStr ''yes'') \<and>
   isin (''none'' # category_names) (PStr ''threat'') \<and>
   isin label_names (PStr ''none'') \<and>
   isin (''none'' # category_names) (PStr ''none'')"
proof -
  have run: "process_toxicity_data only_strings one_row
       [nested reply_insult_threat] [turns (PDict structured_reply)] =
     Inr \<lparr>nrows = 1,
          columns = [(''message'', [PStr ''gg ez'']),
                     (''Zephyr Vanilla_E Label'', [PStr ''yes'']),
                     (''Zephyr Vanilla_E Category'', [PStr ''threat'']),
                     (''Llama Vanilla_E Label'', [PStr ''none'']),
                     (''Llama Vanilla_E Category'', [PStr ''none''])]\<rparr>"
    by code_simp
  from closed_enumeration [OF run] run show ?thesis
    by (simp add: getitem_def)
qed

text \<open>
  C4 as stated fails when the input frame has more rows than the JSON lists have records:
  the second row below has no record, and its label and category cells are \<^verbatim>\<open>NaN\<close>.
\<close>

theorem rows_without_record_hold_nan:
  "process_toxicity_data only_strings two_rows
       [nested reply_not_toxic] [nested reply_not_toxic] =
     Inr \<lparr>nrows = 2,
          columns = [(''message'', [PStr ''gg ez'', PStr ''hello chat'']),
                     (''Zephyr Vanilla_E Label'', [PStr ''no'', PFloat NaN]),
                     (''Zephyr Vanilla_E Category'', [PStr ''none'', PFloat NaN]),
                     (''Llama Vanilla_E Label'', [PStr ''no'', PFloat NaN]),
                     (''Llama Vanilla_E Category'', [PStr ''none'', PFloat NaN])]\<rparr> \<and>
   \<not> isin label_names (PFloat NaN) \<and>
   \<not> isin (''none'' # category_names) (PFloat NaN)"
proof -
  have "process_toxicity_data only_strings two_rows
       [nested reply_not_toxic] [nested reply_not_toxic] =
     Inr \<lparr>nrows = 2,
          columns = [(''message'', [PStr ''gg ez'', PStr ''hello chat'']),
                     (''Zephyr Vanilla_E Label'', [PStr ''no'', PFloat NaN]),
                     (''Zephyr Vanilla_E Category'', [PStr ''none'', PFloat NaN]),
                     (''Llama Vanilla_E Label'', [PStr ''no'', PFloat NaN]),
                     (''Llama Vanilla_E Category'', [PStr ''none'', PFloat NaN])]\<rparr>"
    by code_simp
  then show ?thesis by simp
qed

text \<open>
  C8 at the script's own second call. The first call writes \<open>after_first_run\<close>; the second
  call reads that frame, which already has the four column names, and its output has the
  same five columns: the labels and categories of the first call are replaced, nothing is
  appended.
\<close>

theorem second_run_overwrites:
  "process_toxicity_data only_strings one_row
       [nested reply_not_toxic] [nested reply_not_toxic] = Inr after_first_run \<and>
   process_toxicity_data only_strings after_first_run
       [turns (PDict structured_reply)] [turns (PDict structured_reply)] =
     Inr \<lparr>nrows = 1,
          columns = [(''message'', [PStr ''gg ez'']),
                     (''Zephyr Vanilla_E Label'', [PStr ''yes'']),
                     (''Zephyr Vanilla_E Category'', [PStr ''threat'']),
                     (''Llama Vanilla_E Label'', [PStr ''yes'']),
                     (''Llama Vanilla_E Category'', [PStr ''threat''])]\<rparr>"
proof
  show "process_toxicity_data only_strings one_row
       [nested reply_not_toxic] [nested reply_not_toxic] = Inr after_first_run"
    by code_simp
  show "process_toxicity_data only_strings after_first_run
       [turns (PDict structured_reply)] [turns (PDict structured_reply)] =
     Inr \<lparr>nrows = 1,
          columns = [(''message'', [PStr ''gg ez'']),
                     (''Zephyr Vanilla_E Label'', [PStr ''yes'']),
                     (''Zephyr Vanilla_E Category'', [PStr ''threat'']),
                     (''Llama Vanilla_E Label'', [PStr ''yes'']),
                     (''Llama Vanilla_E Category'', [PStr ''threat''])]\<rparr>"
    by code_simp
qed

text \<open>
  For an input frame that has none of the four column names and as many rows as each list
  has records, the output keeps every input column and appends the four columns, whose
  cell \<open>i\<close> is the normalized extraction from record \<open>i\<close> of the Zephyr and Llama lists.
\<close>

lemma update_fresh: "k \<notin> fst ` set al \<Longrightarrow> AList.update k v al = al @ [(k, v)]"
  by (induction al) auto

lemma fresh_columns_appended:
  assumes "process_toxicity_data accessor df data_llama data_zephyr = Inr out"
    and "length data_llama = nrows df" and "length data_zephyr = nrows df"
    and "''Zephyr Vanilla_E Label'' \<notin> fst ` set (columns df)"
    and "''Zephyr Vanilla_E Category'' \<notin> fst ` set (columns df)"
    and "''Llama Vanilla_E Label'' \<notin> fst ` set (columns df)"
    and "''Llama Vanilla_E Category'' \<notin> fst ` set (columns df)"
  shows "\<exists>fl sl fz sz.
           list_all2 (\<lambda>c v. extract_first_attribute c = Inr v) data_llama fl \<and>
           list_all2 (\<lambda>c v. extract_second_attribute c = Inr v) data_llama sl \<and>
           list_all2 (\<lambda>c v. extract_first_attribute c = Inr v) data_zephyr fz \<and>
           list_all2 (\<lambda>c v. extract_second_attribute c = Inr v) data_zephyr sz \<and>
           nrows out = nrows df \<and>
           columns out = columns df @
             [(''Zephyr Vanilla_E Label'', map normalize_label fz),
              (''Zephyr Vanilla_E Category'', map normalize_category sz),
              (''Llama Vanilla_E Label'', map normalize_label fl),
              (''Llama Vanilla_E Category'', map normalize_category sl)]"
proof -
  from process_Inr [OF assms(1)] assms(2,3) obtain fl sl fz sz where
    fl: "map_err extract_first_attribute data_llama = Inr fl" and
    sl: "map_err extract_second_attribute data_llama = Inr sl" and
    fz: "map_err extract_first_attribute data_zephyr = Inr fz" and
    sz: "map_err extract_second_attribute data_zephyr = Inr sz" and
    n: "nrows out = nrows df" and
    cols: "columns out =
             AList.update ''Llama Vanilla_E Category''
                 (reindex_series (nrows df) (map normalize_category sl))
               (AList.update ''Llama Vanilla_E Label''
                 (reindex_series (nrows df) (map normalize_label fl))
               (AList.update ''Zephyr Vanilla_E Category''
                 (reindex_series (nrows df) (map normalize_category sz))
               (AList.update ''Zephyr Vanilla_E Label''
                 (reindex_series (nrows df) (map normalize_label fz))
                 (columns (ensure_valid_index df (map normalize_label fz))))))"
    by (auto split: if_splits)
  note len = map_err_length [OF fl] map_err_length [OF sl] map_err_length [OF fz]
    map_err_length [OF sz]
  have "columns out = columns df @
             [(''Zephyr Vanilla_E Label'', map normalize_label fz),
              (''Zephyr Vanilla_E Category'', map normalize_category sz),
              (''Llama Vanilla_E Label'', map normalize_label fl),
              (''Llama Vanilla_E Category'', map normalize_category sl)]"
    using len assms(2-7)
    by (simp add: cols ensure_valid_index_same reindex_series_same update_fresh)
  with n map_err_all2 [OF fl] map_err_all2 [OF sl] map_err_all2 [OF fz] map_err_all2 [OF sz]
  show ?thesis by blast
qed

end
